theory Spec2Isabelle
  imports Complex_Main "HOL-Library.Multiset" "HOL-Library.Sublist"
begin

section \<open>Number model\<close>

text \<open>
  The program computes in \<open>double\<close> and stores points in raylib's \<open>Vector2\<close> (two
  \<open>float\<close>s). Both are idealised here as exact reals: rounding, infinities and NaN are
  outside the model, and \<open>static_cast<float>\<close> is the identity. One narrowing is kept,
  because it is decided by the source text alone: a literal with the suffix \<open>f\<close> denotes
  the nearest binary32 value, so \<open>299792458.0f\<close> is \<open>299792448\<close> (binary32 numbers of
  that size are multiples of 32) and \<open>6.67430e-11f\<close> is \<open>9618680 / 2^57\<close>.
\<close>

definition c_light :: real where
  \<comment> \<open>\<open>const double c = 299792458.0f\<close>\<close>
  "c_light = 299792448"

definition G_grav :: real where
  \<comment> \<open>\<open>const double G = 6.67430e-11f\<close>\<close>
  "G_grav = 9618680 / 2 ^ 57"

definition VIS_SCALE :: real where
  \<comment> \<open>\<open>const double VIS_SCALE = 6e-9\<close>\<close>
  "VIS_SCALE = 6 / 10 ^ 9"

definition TIME_MULTIPLIER :: real where
  "TIME_MULTIPLIER = 100"

text \<open>The values the specification names for the two physical constants.\<close>

definition c_spec :: real where
  "c_spec = 299792458"

definition G_spec :: real where
  "G_spec = 66743 / 10 ^ 15"

section \<open>Library functions used by the program\<close>

text \<open>
  \<open>hypot\<close>, \<open>atan2\<close>, \<open>cos\<close> and \<open>sin\<close> come from the C library and
  \<open>Vector2Normalize\<close> from raymath; none of them is part of the repository. They are
  modelled by the mathematical functions they approximate. \<open>atan2 0 0\<close> is 0, as the C
  standard has it for positive zeros. raymath's \<open>Vector2Normalize\<close> scales by the inverse
  length when the length is positive and returns the zero vector otherwise. It computes in
  binary32, so in the program the result has unit length only up to rounding; no statement
  below rests on that length being exactly 1.
\<close>

record Vector2 =
  vx :: real
  vy :: real

definition hypot :: "real \<Rightarrow> real \<Rightarrow> real" where
  "hypot a b = sqrt (a * a + b * b)"

definition atan2 :: "real \<Rightarrow> real \<Rightarrow> real" where
  "atan2 b a =
     (if 0 < a then arctan (b / a)
      else if a < 0 then (if 0 \<le> b then arctan (b / a) + pi else arctan (b / a) - pi)
      else if 0 < b then pi / 2
      else if b < 0 then - (pi / 2)
      else 0)"

definition Vector2Normalize :: "Vector2 \<Rightarrow> Vector2" where
  "Vector2Normalize v =
     (let len = sqrt (vx v * vx v + vy v * vy v)
      in if 0 < len
         then (let ilength = 1 / len in \<lparr>vx = vx v * ilength, vy = vy v * ilength\<rparr>)
         else \<lparr>vx = 0, vy = 0\<rparr>)"

section \<open>The black hole\<close>

record BlackHole =
  bh_pos :: Vector2
  bh_mass :: real
  bh_r_s :: real

definition BlackHole_init :: "Vector2 \<Rightarrow> real \<Rightarrow> BlackHole" where
  \<comment> \<open>constructor \<open>BlackHole(Vector2 position, double m)\<close>\<close>
  "BlackHole_init position m =
     \<lparr>bh_pos = position, bh_mass = m, bh_r_s = (2 * G_grav * m) / (c_light * c_light)\<rparr>"

section \<open>The light ray\<close>

record LightRay =
  lr_pos :: Vector2
  lr_dir :: Vector2
  lr_r :: real
  lr_phi :: real
  lr_dr :: real
  lr_dphi :: real
  lr_path :: "Vector2 list"

definition LightRay_init :: "Vector2 \<Rightarrow> Vector2 \<Rightarrow> LightRay" where
  \<comment> \<open>constructor \<open>LightRay(Vector2 position, Vector2 direction)\<close>; \<open>dr\<close> and \<open>dphi\<close>
      take their member initialisers\<close>
  "LightRay_init position direction =
     \<lparr>lr_pos = position, lr_dir = direction,
      lr_r = hypot (vx position) (vy position) / VIS_SCALE,
      lr_phi = atan2 (vy position) (vx position),
      lr_dr = 0, lr_dphi = 0,
      lr_path = [position]\<rparr>"

definition LightRay_Update :: "real \<Rightarrow> real \<Rightarrow> LightRay \<Rightarrow> LightRay" where
  \<comment> \<open>\<open>void LightRay::Update(double dt, double r_s)\<close>; the two early returns keep the
      fields \<open>r\<close> and \<open>phi\<close> that were assigned before them\<close>
  "LightRay_Update dt r_s lr =
     (let r = hypot (vx (lr_pos lr)) (vy (lr_pos lr)) / VIS_SCALE;
          phi = atan2 (vy (lr_pos lr)) (vx (lr_pos lr));
          lr1 = lr\<lparr>lr_r := r, lr_phi := phi\<rparr>
      in if r \<le> 0 then lr1
         else if r < r_s then lr1
         else
          (let r_hat = \<lparr>vx = cos phi, vy = sin phi\<rparr>;
               phi_hat = \<lparr>vx = - sin phi, vy = cos phi\<rparr>;
               v_r = (vx (lr_dir lr) * vx r_hat + vy (lr_dir lr) * vy r_hat) * c_light;
               v_phi = (vx (lr_dir lr) * vx phi_hat + vy (lr_dir lr) * vy phi_hat) * c_light;
               dphi_dt = v_phi / r;
               dr_dt = v_r;
               L = r * r * dphi_dt / c_light;
               r2 = r * r;
               r3 = r2 * r;
               r4 = r3 * r;
               c2 = c_light * c_light;
               d2r_dt2 = - (r_s * c2) / (2 * r2) + (L * L * c2) / r3
                         - (3 * r_s * L * L * c2) / (2 * r4);
               d2phi_dt2 = (- 2 / r) * dr_dt * dphi_dt;
               dr_dt1 = dr_dt + d2r_dt2 * dt;
               dphi_dt1 = dphi_dt + d2phi_dt2 * dt;
               r1 = r + dr_dt1 * dt;
               phi1 = phi + dphi_dt1 * dt;
               pos1 = \<lparr>vx = r1 * cos phi1 * VIS_SCALE, vy = r1 * sin phi1 * VIS_SCALE\<rparr>;
               new_r_hat = \<lparr>vx = cos phi1, vy = sin phi1\<rparr>;
               new_phi_hat = \<lparr>vx = - sin phi1, vy = cos phi1\<rparr>;
               velocity_cart =
                 \<lparr>vx = dr_dt1 * vx new_r_hat + r1 * dphi_dt1 * vx new_phi_hat,
                  vy = dr_dt1 * vy new_r_hat + r1 * dphi_dt1 * vy new_phi_hat\<rparr>
           in lr\<lparr>lr_pos := pos1, lr_dir := Vector2Normalize velocity_cart,
                 lr_r := r1, lr_phi := phi1, lr_path := lr_path lr @ [pos1]\<rparr>))"

section \<open>The simulation\<close>

record Simulation =
  blackHole :: BlackHole
  lightRays :: "LightRay list"
  center :: Vector2

definition Simulation_init :: "int \<Rightarrow> int \<Rightarrow> Simulation" where
  \<comment> \<open>constructor \<open>Simulation(int width, int height)\<close>\<close>
  "Simulation_init width height =
     (let ctr = \<lparr>vx = real_of_int width / 2, vy = real_of_int height / 2\<rparr>
      in \<lparr>blackHole = BlackHole_init \<lparr>vx = 0, vy = 0\<rparr> (854 * 10 ^ 34),
          lightRays = [LightRay_init \<lparr>vx = - vx ctr, vy = 28599 / 100\<rparr> \<lparr>vx = 1, vy = 0\<rparr>],
          center = ctr\<rparr>)"

fun update_rays :: "real \<Rightarrow> real \<Rightarrow> LightRay list \<Rightarrow> LightRay list" where
  \<comment> \<open>the loop \<open>for (auto &lr : lightRays) lr.Update(dt, blackHole.r_s)\<close>, front to back\<close>
  "update_rays dt r_s [] = []"
| "update_rays dt r_s (lr # lrs) = LightRay_Update dt r_s lr # update_rays dt r_s lrs"

definition Simulation_Update :: "real \<Rightarrow> Simulation \<Rightarrow> Simulation" where
  \<comment> \<open>\<open>void Simulation::Update(double dt)\<close>\<close>
  "Simulation_Update dt sim =
     sim\<lparr>lightRays := update_rays dt (bh_r_s (blackHole sim)) (lightRays sim)\<rparr>"

fun Simulation_steps :: "real list \<Rightarrow> Simulation \<Rightarrow> Simulation" where
  \<comment> \<open>successive calls of \<open>Update\<close>, one per frame, as \<open>Run\<close> makes them\<close>
  "Simulation_steps [] sim = sim"
| "Simulation_steps (dt # dts) sim = Simulation_steps dts (Simulation_Update dt sim)"

section \<open>Quantities of one update\<close>

text \<open>
  Names for the local variables of \<open>LightRay::Update\<close>, as functions of the state the call
  starts from; \<open>Update_live\<close> below shows that they are what the update computes.
\<close>

definition polar_r :: "Vector2 \<Rightarrow> real" where
  \<comment> \<open>\<open>r\<close> as assigned on entry\<close>
  "polar_r p = hypot (vx p) (vy p) / VIS_SCALE"

definition polar_phi :: "Vector2 \<Rightarrow> real" where
  \<comment> \<open>\<open>phi\<close> as assigned on entry\<close>
  "polar_phi p = atan2 (vy p) (vx p)"

definition live :: "real \<Rightarrow> LightRay \<Rightarrow> bool" where
  \<comment> \<open>neither early return is taken\<close>
  "live r_s lr = (\<not> polar_r (lr_pos lr) \<le> 0 \<and> \<not> polar_r (lr_pos lr) < r_s)"

definition dr_dt_in :: "LightRay \<Rightarrow> real" where
  \<comment> \<open>\<open>dr_dt\<close> before the integration, which is \<open>v_r\<close>\<close>
  "dr_dt_in lr =
     (vx (lr_dir lr) * cos (polar_phi (lr_pos lr))
      + vy (lr_dir lr) * sin (polar_phi (lr_pos lr))) * c_light"

definition v_phi_in :: "LightRay \<Rightarrow> real" where
  \<comment> \<open>\<open>v_phi\<close>\<close>
  "v_phi_in lr =
     (vx (lr_dir lr) * (- sin (polar_phi (lr_pos lr)))
      + vy (lr_dir lr) * cos (polar_phi (lr_pos lr))) * c_light"

definition dphi_dt_in :: "LightRay \<Rightarrow> real" where
  \<comment> \<open>\<open>dphi_dt\<close> before the integration\<close>
  "dphi_dt_in lr = v_phi_in lr / polar_r (lr_pos lr)"

definition speed_in :: "LightRay \<Rightarrow> real" where
  \<comment> \<open>the magnitude of the velocity \<open>(dr_dt, r * dphi_dt)\<close> handed to the integration\<close>
  "speed_in lr =
     sqrt ((dr_dt_in lr)\<^sup>2 + (polar_r (lr_pos lr) * dphi_dt_in lr)\<^sup>2)"

definition d2r_dt2 :: "real \<Rightarrow> LightRay \<Rightarrow> real" where
  "d2r_dt2 r_s lr =
     (let r = polar_r (lr_pos lr);
          L = r * r * dphi_dt_in lr / c_light;
          r2 = r * r;
          r3 = r2 * r;
          r4 = r3 * r;
          c2 = c_light * c_light
      in - (r_s * c2) / (2 * r2) + (L * L * c2) / r3 - (3 * r_s * L * L * c2) / (2 * r4))"

definition d2phi_dt2 :: "LightRay \<Rightarrow> real" where
  "d2phi_dt2 lr = (- 2 / polar_r (lr_pos lr)) * dr_dt_in lr * dphi_dt_in lr"

definition dr_dt_out :: "real \<Rightarrow> real \<Rightarrow> LightRay \<Rightarrow> real" where
  \<comment> \<open>\<open>dr_dt\<close> after \<open>dr_dt += d2r_dt2 * dt\<close>\<close>
  "dr_dt_out dt r_s lr = dr_dt_in lr + d2r_dt2 r_s lr * dt"

definition dphi_dt_out :: "real \<Rightarrow> LightRay \<Rightarrow> real" where
  \<comment> \<open>\<open>dphi_dt\<close> after \<open>dphi_dt += d2phi_dt2 * dt\<close>\<close>
  "dphi_dt_out dt lr = dphi_dt_in lr + d2phi_dt2 lr * dt"

definition r_out :: "real \<Rightarrow> real \<Rightarrow> LightRay \<Rightarrow> real" where
  \<comment> \<open>\<open>r\<close> after \<open>r += dr_dt * dt\<close>\<close>
  "r_out dt r_s lr = polar_r (lr_pos lr) + dr_dt_out dt r_s lr * dt"

definition phi_out :: "real \<Rightarrow> LightRay \<Rightarrow> real" where
  \<comment> \<open>\<open>phi\<close> after \<open>phi += dphi_dt * dt\<close>\<close>
  "phi_out dt lr = polar_phi (lr_pos lr) + dphi_dt_out dt lr * dt"

definition pos_out :: "real \<Rightarrow> real \<Rightarrow> LightRay \<Rightarrow> Vector2" where
  "pos_out dt r_s lr =
     \<lparr>vx = r_out dt r_s lr * cos (phi_out dt lr) * VIS_SCALE,
      vy = r_out dt r_s lr * sin (phi_out dt lr) * VIS_SCALE\<rparr>"

definition velocity_cart :: "real \<Rightarrow> real \<Rightarrow> LightRay \<Rightarrow> Vector2" where
  "velocity_cart dt r_s lr =
     \<lparr>vx = dr_dt_out dt r_s lr * cos (phi_out dt lr)
            + r_out dt r_s lr * dphi_dt_out dt lr * (- sin (phi_out dt lr)),
      vy = dr_dt_out dt r_s lr * sin (phi_out dt lr)
            + r_out dt r_s lr * dphi_dt_out dt lr * cos (phi_out dt lr)\<rparr>"

fun LightRay_steps :: "real \<Rightarrow> real list \<Rightarrow> LightRay \<Rightarrow> LightRay" where
  \<comment> \<open>successive updates of one ray against the same Schwarzschild radius\<close>
  "LightRay_steps r_s [] lr = lr"
| "LightRay_steps r_s (dt # dts) lr = LightRay_steps r_s dts (LightRay_Update dt r_s lr)"

fun all_live :: "real \<Rightarrow> real list \<Rightarrow> LightRay \<Rightarrow> bool" where
  \<comment> \<open>every update of the run starts from a live ray\<close>
  "all_live r_s [] lr = True"
| "all_live r_s (dt # dts) lr = (live r_s lr \<and> all_live r_s dts (LightRay_Update dt r_s lr))"

section \<open>The integration as the specification words it\<close>

definition integrate_spec ::
  "real \<Rightarrow> real \<Rightarrow> real \<times> real \<times> real \<times> real \<Rightarrow> real \<times> real \<times> real \<times> real" where
  \<comment> \<open>steps 3 to 7 of the specification's GeodesicIntegrator, on \<open>(r, phi, dr/dt, dphi/dt)\<close>\<close>
  "integrate_spec r_s dt st =
     (case st of (r, phi, dr, dphi) \<Rightarrow>
        let L = r\<^sup>2 * dphi / c_light;
            acc_r = - (r_s * c_light\<^sup>2) / (2 * r\<^sup>2) + (L\<^sup>2 * c_light\<^sup>2) / r ^ 3
                    - (3 * r_s * L\<^sup>2 * c_light\<^sup>2) / (2 * r ^ 4);
            acc_phi = (- 2 / r) * dr * dphi;
            dr' = dr + acc_r * dt;
            dphi' = dphi + acc_phi * dt;
            r' = r + dr' * dt;
            phi' = phi + dphi' * dt
        in (r', phi', dr', dphi'))"

text \<open>
  The radius as the specification words it, relative to the black hole's position:
  \<open>|position - blackHolePosition| / VIS_SCALE\<close>.
\<close>

definition polar_r_spec :: "Vector2 \<Rightarrow> Vector2 \<Rightarrow> real" where
  "polar_r_spec blackHolePosition position =
     sqrt ((vx position - vx blackHolePosition)\<^sup>2 + (vy position - vy blackHolePosition)\<^sup>2)
     / VIS_SCALE"

section \<open>Example states\<close>

text \<open>
  Concrete rays and a concrete world, at which the theorems below are instantiated. The
  rays sit on the positive x axis and point along it, so that every quantity of an update
  is a rational number.
\<close>

definition ray_axis :: LightRay where
  "ray_axis = LightRay_init \<lparr>vx = 6, vy = 0\<rparr> \<lparr>vx = 1, vy = 0\<rparr>"

definition ray_far :: LightRay where
  "ray_far = LightRay_init \<lparr>vx = 600, vy = 0\<rparr> \<lparr>vx = 1, vy = 0\<rparr>"

definition sim_two :: Simulation where
  "sim_two = \<lparr>blackHole = BlackHole_init \<lparr>vx = 0, vy = 0\<rparr> (854 * 10 ^ 34),
              lightRays = [ray_axis, ray_far],
              center = \<lparr>vx = 800, vy = 450\<rparr>\<rparr>"

text \<open>
  A ray, a Schwarzschild radius and a time step at which the radial velocity comes out as
  exactly zero. All three are numbers the program can hold: the coordinate
  \<open>571.8087158203125\<close> is a binary32 number, the radius \<open>59604644775.390625\<close> and the
  time step \<open>1016.548828125\<close> are binary64 numbers. The derived radius is
  \<open>95301452636.71875\<close>, the radial acceleration \<open>-294912\<close>, and
  \<open>294912 * 1016.548828125 = 299792448\<close>.
\<close>

definition ray_stall :: LightRay where
  "ray_stall = LightRay_init \<lparr>vx = 4684257 / 8192, vy = 0\<rparr> \<lparr>vx = 1, vy = 0\<rparr>"

definition r_s_stall :: real where
  "r_s_stall = 10 ^ 18 / 2 ^ 24"

definition dt_stall :: real where
  "dt_stall = 520473 / 512"

section \<open>Facts about the library functions\<close>

lemma hypot_nonneg: "0 \<le> hypot a b"
  by (simp add: hypot_def)

lemma hypot_zero_iff: "hypot a b = 0 \<longleftrightarrow> a = 0 \<and> b = 0"
  unfolding hypot_def
  by (metis add_nonneg_eq_0_iff mult_eq_0_iff real_sqrt_eq_zero_cancel_iff zero_le_square)

lemma hypot_axis: "hypot a 0 = \<bar>a\<bar>"
  by (simp add: hypot_def)

lemma polar_r_nonneg: "0 \<le> polar_r p"
  by (simp add: polar_r_def VIS_SCALE_def hypot_nonneg)

lemma polar_r_le_zero_iff: "polar_r p \<le> 0 \<longleftrightarrow> vx p = 0 \<and> vy p = 0"
proof -
  have "polar_r p \<le> 0 \<longleftrightarrow> hypot (vx p) (vy p) \<le> 0"
    by (simp add: polar_r_def VIS_SCALE_def divide_le_0_iff)
  also have "\<dots> \<longleftrightarrow> hypot (vx p) (vy p) = 0"
    using hypot_nonneg [of "vx p" "vy p"] by linarith
  finally show ?thesis by (simp add: hypot_zero_iff)
qed

section \<open>The two branches of an update\<close>

lemma Update_frozen:
  "\<not> live r_s lr \<Longrightarrow>
   LightRay_Update dt r_s lr
   = lr\<lparr>lr_r := polar_r (lr_pos lr), lr_phi := polar_phi (lr_pos lr)\<rparr>"
  by (auto simp add: LightRay_Update_def live_def polar_r_def polar_phi_def Let_def)

lemma Update_live:
  "live r_s lr \<Longrightarrow>
   LightRay_Update dt r_s lr
   = lr\<lparr>lr_pos := pos_out dt r_s lr,
        lr_dir := Vector2Normalize (velocity_cart dt r_s lr),
        lr_r := r_out dt r_s lr, lr_phi := phi_out dt lr,
        lr_path := lr_path lr @ [pos_out dt r_s lr]\<rparr>"
  unfolding LightRay_Update_def pos_out_def velocity_cart_def r_out_def phi_out_def
    dr_dt_out_def dphi_dt_out_def d2r_dt2_def d2phi_dt2_def dr_dt_in_def dphi_dt_in_def
    v_phi_in_def Let_def polar_r_def [symmetric] polar_phi_def [symmetric] live_def
  by (simp only: if_False Vector2.simps simp_thms)

lemma update_rays_map: "update_rays dt r_s lrs = map (LightRay_Update dt r_s) lrs"
  by (induction lrs) simp_all

lemma Simulation_steps_blackHole: "blackHole (Simulation_steps dts sim) = blackHole sim"
  by (induction dts arbitrary: sim) (simp_all add: Simulation_Update_def)

lemma polar_r_axis: "polar_r \<lparr>vx = a, vy = 0\<rparr> = \<bar>a\<bar> / VIS_SCALE"
  by (simp add: polar_r_def hypot_axis)

lemma polar_phi_axis: "0 < a \<Longrightarrow> polar_phi \<lparr>vx = a, vy = 0\<rparr> = 0"
  by (simp add: polar_phi_def atan2_def)

lemma Update_frozen_fields:
  assumes "\<not> live r_s lr"
  shows "lr_pos (LightRay_Update dt r_s lr) = lr_pos lr"
    and "lr_dir (LightRay_Update dt r_s lr) = lr_dir lr"
    and "lr_path (LightRay_Update dt r_s lr) = lr_path lr"
    and "lr_dr (LightRay_Update dt r_s lr) = lr_dr lr"
    and "lr_dphi (LightRay_Update dt r_s lr) = lr_dphi lr"
  by (simp_all add: Update_frozen [OF assms])

lemma Update_live_path:
  "live r_s lr \<Longrightarrow>
   lr_path (LightRay_Update dt r_s lr) = lr_path lr @ [lr_pos (LightRay_Update dt r_s lr)]"
  by (simp add: Update_live)

lemma Update_path_cases:
  "lr_path (LightRay_Update dt r_s lr) = lr_path lr
   \<or> lr_path (LightRay_Update dt r_s lr) = lr_path lr @ [lr_pos (LightRay_Update dt r_s lr)]"
  by (cases "live r_s lr") (simp_all add: Update_frozen Update_live)

lemma steps_path_prefix: "prefix (lr_path lr) (lr_path (LightRay_steps r_s dts lr))"
proof (induction dts arbitrary: lr)
  case Nil
  show ?case by simp
next
  case (Cons dt dts)
  have "prefix (lr_path lr) (lr_path (LightRay_Update dt r_s lr))"
    using Update_path_cases [of dt r_s lr] by auto
  also have "prefix \<dots> (lr_path (LightRay_steps r_s dts (LightRay_Update dt r_s lr)))"
    by (rule Cons.IH)
  finally show ?case by simp
qed

lemma steps_live_length:
  "all_live r_s dts lr \<Longrightarrow>
   length (lr_path (LightRay_steps r_s dts lr)) = length (lr_path lr) + length dts"
proof (induction dts arbitrary: lr)
  case Nil
  show ?case by simp
next
  case (Cons dt dts)
  from Cons.prems have l: "live r_s lr" and rest: "all_live r_s dts (LightRay_Update dt r_s lr)"
    by simp_all
  have "length (lr_path (LightRay_Update dt r_s lr)) = length (lr_path lr) + 1"
    by (simp add: Update_live_path [OF l])
  with Cons.IH [OF rest] show ?case by simp
qed

lemma steps_absorbed:
  "polar_r (lr_pos lr) < r_s \<Longrightarrow>
   lr_pos (LightRay_steps r_s dts lr) = lr_pos lr
   \<and> lr_dir (LightRay_steps r_s dts lr) = lr_dir lr
   \<and> lr_path (LightRay_steps r_s dts lr) = lr_path lr"
proof (induction dts arbitrary: lr)
  case Nil
  show ?case by simp
next
  case (Cons dt dts)
  from Cons.prems have nl: "\<not> live r_s lr" by (simp add: live_def)
  have same: "lr_pos (LightRay_Update dt r_s lr) = lr_pos lr"
    by (rule Update_frozen_fields [OF nl])
  with Cons.prems have "polar_r (lr_pos (LightRay_Update dt r_s lr)) < r_s" by simp
  from Cons.IH [OF this] show ?case
    by (simp add: Update_frozen_fields [OF nl])
qed

lemmas out_defs = pos_out_def r_out_def phi_out_def dr_dt_out_def dphi_dt_out_def
  d2r_dt2_def d2phi_dt2_def dr_dt_in_def dphi_dt_in_def v_phi_in_def

lemma ray_axis_live: "live 1 ray_axis"
  by (simp add: live_def ray_axis_def LightRay_init_def polar_r_axis VIS_SCALE_def)

lemma ray_axis_pos_out:
  "7 < vx (pos_out 1 1 ray_axis) \<and> vy (pos_out 1 1 ray_axis) = 0"
  by (simp add: out_defs Let_def ray_axis_def LightRay_init_def polar_r_axis polar_phi_axis
      VIS_SCALE_def c_light_def)

lemma ray_axis_live2: "live 1 (LightRay_Update 1 1 ray_axis)"
proof -
  obtain a where p: "pos_out 1 1 ray_axis = \<lparr>vx = a, vy = 0\<rparr>" and a: "7 < a"
    using ray_axis_pos_out by (cases "pos_out 1 1 ray_axis") auto
  show ?thesis
    using a by (simp add: live_def Update_live [OF ray_axis_live] p polar_r_axis VIS_SCALE_def)
qed

lemma ray_axis_in: "polar_r (lr_pos ray_axis) = 10 ^ 9" "polar_phi (lr_pos ray_axis) = 0"
    "dr_dt_in ray_axis = 299792448" "dphi_dt_in ray_axis = 0"
  by (simp_all add: out_defs ray_axis_def LightRay_init_def polar_r_axis polar_phi_axis
      VIS_SCALE_def c_light_def)

lemma nth_map_indices:
  "set idxs \<subseteq> {..<length xs} \<Longrightarrow> map ((!) (map f xs)) idxs = map f (map ((!) xs) idxs)"
  by (induction idxs) simp_all

lemma update_steps_rays:
  "bh_r_s (blackHole s) = bh_r_s (blackHole t) \<Longrightarrow> lightRays s = lightRays t \<Longrightarrow>
   lightRays (Simulation_steps dts s) = lightRays (Simulation_steps dts t)"
proof (induction dts arbitrary: s t)
  case Nil
  then show ?case by simp
next
  case (Cons dt dts)
  have a: "bh_r_s (blackHole (Simulation_Update dt s))
           = bh_r_s (blackHole (Simulation_Update dt t))"
    using Cons.prems by (simp add: Simulation_Update_def)
  have b: "lightRays (Simulation_Update dt s) = lightRays (Simulation_Update dt t)"
    using Cons.prems by (simp add: Simulation_Update_def)
  have "lightRays (Simulation_steps dts (Simulation_Update dt s))
        = lightRays (Simulation_steps dts (Simulation_Update dt t))"
    using a b by (rule Cons.IH)
  then show ?case by simp
qed

section \<open>Angles, lengths and normalised vectors\<close>

lemma hypot_pos: "a \<noteq> 0 \<or> b \<noteq> 0 \<Longrightarrow> 0 < hypot a b"
  using hypot_nonneg [of a b] hypot_zero_iff [of a b] by (cases "hypot a b = 0") auto

lemma sqrt_one_plus_ratio:
  assumes "a \<noteq> 0"
  shows "sqrt (1 + (b / a)\<^sup>2) = hypot a b / \<bar>a\<bar>"
proof -
  have "1 + (b / a)\<^sup>2 = (a * a + b * b) / (a * a)"
    using assms by (simp add: power2_eq_square field_simps)
  then have "sqrt (1 + (b / a)\<^sup>2) = sqrt (a * a + b * b) / sqrt (a * a)"
    by (simp add: real_sqrt_divide)
  then show ?thesis by (simp add: hypot_def)
qed

lemma cos_arctan_ratio:
  assumes "a \<noteq> 0"
  shows "cos (arctan (b / a)) = \<bar>a\<bar> / hypot a b"
  using assms by (simp add: cos_arctan sqrt_one_plus_ratio)

lemma sin_arctan_ratio:
  assumes "a \<noteq> 0"
  shows "sin (arctan (b / a)) = (b / a) * \<bar>a\<bar> / hypot a b"
  using assms by (simp add: sin_arctan sqrt_one_plus_ratio)

lemma cos_atan2: 
  assumes "a \<noteq> 0 \<or> b \<noteq> 0"
  shows "cos (atan2 b a) = a / hypot a b"
proof -
  consider "0 < a" | "a < 0" | "a = 0" "0 < b" | "a = 0" "b < 0"
    using assms by linarith
  then show ?thesis
  proof cases
    case 1
    then show ?thesis by (simp add: atan2_def cos_arctan_ratio)
  next
    case 2
    then show ?thesis by (simp add: atan2_def cos_arctan_ratio)
  next
    case 3
    then show ?thesis by (simp add: atan2_def)
  next
    case 4
    then show ?thesis by (simp add: atan2_def)
  qed
qed

lemma sin_atan2: 
  assumes "a \<noteq> 0 \<or> b \<noteq> 0"
  shows "sin (atan2 b a) = b / hypot a b"
proof -
  consider "0 < a" | "a < 0" | "a = 0" "0 < b" | "a = 0" "b < 0"
    using assms by linarith
  then show ?thesis
  proof cases
    case 1
    then show ?thesis by (simp add: atan2_def sin_arctan_ratio)
  next
    case 2
    then show ?thesis by (simp add: atan2_def sin_arctan_ratio)
  next
    case 3
    then show ?thesis by (simp add: atan2_def hypot_def)
  next
    case 4
    then show ?thesis by (simp add: atan2_def hypot_def)
  qed
qed

lemma Vector2Normalize_zero: "Vector2Normalize \<lparr>vx = 0, vy = 0\<rparr> = \<lparr>vx = 0, vy = 0\<rparr>"
  by (simp add: Vector2Normalize_def)

lemma Vector2Normalize_axis: "0 < a \<Longrightarrow> Vector2Normalize \<lparr>vx = a, vy = 0\<rparr> = \<lparr>vx = 1, vy = 0\<rparr>"
  by (simp add: Vector2Normalize_def)

section \<open>From one update to the next\<close>

lemma VIS_SCALE_pos: "0 < VIS_SCALE"
  by (simp add: VIS_SCALE_def)

lemma Update_ignores_polar_fields:
  "LightRay_Update dt r_s (lr\<lparr>lr_r := a, lr_phi := b\<rparr>) = LightRay_Update dt r_s lr"
  by (simp add: LightRay_Update_def Let_def)

lemma Update_keeps_velocity_fields:
  "LightRay_Update dt r_s (lr\<lparr>lr_dr := u, lr_dphi := w\<rparr>)
   = (LightRay_Update dt r_s lr)\<lparr>lr_dr := u, lr_dphi := w\<rparr>"
  by (simp add: LightRay_Update_def Let_def)

lemma pos_out_zero_dt:
  assumes "live r_s lr"
  shows "pos_out 0 r_s lr = lr_pos lr"
proof -
  let ?a = "vx (lr_pos lr)" and ?b = "vy (lr_pos lr)"
  from assms have "\<not> polar_r (lr_pos lr) \<le> 0" by (simp add: live_def)
  then have nz: "?a \<noteq> 0 \<or> ?b \<noteq> 0"
    by (simp add: polar_r_le_zero_iff)
  then have h: "0 < hypot ?a ?b" by (rule hypot_pos)
  have rv: "polar_r (lr_pos lr) * VIS_SCALE = hypot ?a ?b"
    using VIS_SCALE_pos by (simp add: polar_r_def)
  have "polar_r (lr_pos lr) * cos (polar_phi (lr_pos lr)) * VIS_SCALE
        = (polar_r (lr_pos lr) * VIS_SCALE) * cos (atan2 ?b ?a)"
    by (simp add: polar_phi_def)
  also have "\<dots> = ?a"
    using h by (simp add: rv cos_atan2 [OF nz])
  finally have x: "polar_r (lr_pos lr) * cos (polar_phi (lr_pos lr)) * VIS_SCALE = ?a" .
  have "polar_r (lr_pos lr) * sin (polar_phi (lr_pos lr)) * VIS_SCALE
        = (polar_r (lr_pos lr) * VIS_SCALE) * sin (atan2 ?b ?a)"
    by (simp add: polar_phi_def)
  also have "\<dots> = ?b"
    using h by (simp add: rv sin_atan2 [OF nz])
  finally have y: "polar_r (lr_pos lr) * sin (polar_phi (lr_pos lr)) * VIS_SCALE = ?b" .
  show ?thesis
    by (simp add: pos_out_def r_out_def phi_out_def x y)
qed

lemma ray_stall_live: "live r_s_stall ray_stall"
  by (simp add: live_def ray_stall_def r_s_stall_def LightRay_init_def polar_r_axis VIS_SCALE_def)

lemma ray_stall_quantities:
  "polar_r (lr_pos ray_stall) = 3049646484375 / 32"
  "d2r_dt2 r_s_stall ray_stall = - 294912"
  "dr_dt_out dt_stall r_s_stall ray_stall = 0"
  "dphi_dt_out dt_stall ray_stall = 0"
  "r_out dt_stall r_s_stall ray_stall = 3049646484375 / 32"
  "phi_out dt_stall ray_stall = 0"
  by (simp_all add: out_defs Let_def ray_stall_def r_s_stall_def dt_stall_def LightRay_init_def
      polar_r_axis polar_phi_axis VIS_SCALE_def c_light_def)

lemma ray_stall_velocity: "velocity_cart dt_stall r_s_stall ray_stall = \<lparr>vx = 0, vy = 0\<rparr>"
  by (simp add: velocity_cart_def ray_stall_quantities)

lemma ray_stall_pos_out: "pos_out dt_stall r_s_stall ray_stall = \<lparr>vx = 4684257 / 8192, vy = 0\<rparr>"
  by (simp add: pos_out_def ray_stall_quantities VIS_SCALE_def)

lemma ray_axis_live_e9: "live 1000000000 ray_axis"
  by (simp add: live_def ray_axis_def LightRay_init_def polar_r_axis VIS_SCALE_def)

lemma ray_axis_e9:
  "dr_dt_out 1 1000000000 ray_axis = 299792448 - 299792448\<^sup>2 / (2 * 10 ^ 9)"
  "velocity_cart 1 1000000000 ray_axis = \<lparr>vx = 299792448 - 299792448\<^sup>2 / (2 * 10 ^ 9), vy = 0\<rparr>"
  "pos_out 1 1000000000 ray_axis
   = \<lparr>vx = (10 ^ 9 + (299792448 - 299792448\<^sup>2 / (2 * 10 ^ 9))) * (6 / 10 ^ 9), vy = 0\<rparr>"
  by (simp_all add: velocity_cart_def out_defs Let_def ray_axis_def LightRay_init_def
      polar_r_axis polar_phi_axis VIS_SCALE_def c_light_def)


lemma Update_reads_pos_dir:
  assumes "lr_pos lr1 = lr_pos lr2" and "lr_dir lr1 = lr_dir lr2"
  shows "lr_pos (LightRay_Update dt r_s lr1) = lr_pos (LightRay_Update dt r_s lr2)"
    and "lr_dir (LightRay_Update dt r_s lr1) = lr_dir (LightRay_Update dt r_s lr2)"
    and "lr_r (LightRay_Update dt r_s lr1) = lr_r (LightRay_Update dt r_s lr2)"
    and "lr_phi (LightRay_Update dt r_s lr1) = lr_phi (LightRay_Update dt r_s lr2)"
  using assms by (simp_all add: LightRay_Update_def Let_def)

lemma Update_live_dir:
  "live r_s lr \<Longrightarrow> lr_dir (LightRay_Update dt r_s lr) = Vector2Normalize (velocity_cart dt r_s lr)"
  by (simp add: Update_live)

lemma entering_zero_dir:
  assumes "lr_dir lr = \<lparr>vx = 0, vy = 0\<rparr>"
  shows "dr_dt_in lr = 0" and "dphi_dt_in lr = 0" and "speed_in lr = 0"
  using assms by (simp_all add: speed_in_def dr_dt_in_def dphi_dt_in_def v_phi_in_def)

lemma entering_after_live:
  assumes "live r_s lr"
  shows "dr_dt_in (LightRay_Update dt r_s lr)
         = (vx (Vector2Normalize (velocity_cart dt r_s lr)) * cos (polar_phi (pos_out dt r_s lr))
            + vy (Vector2Normalize (velocity_cart dt r_s lr)) * sin (polar_phi (pos_out dt r_s lr)))
           * c_light"
    and "dphi_dt_in (LightRay_Update dt r_s lr)
         = (vx (Vector2Normalize (velocity_cart dt r_s lr)) * (- sin (polar_phi (pos_out dt r_s lr)))
            + vy (Vector2Normalize (velocity_cart dt r_s lr)) * cos (polar_phi (pos_out dt r_s lr)))
           * c_light / polar_r (pos_out dt r_s lr)"
  by (simp_all add: dr_dt_in_def dphi_dt_in_def v_phi_in_def Update_live [OF assms])

lemma ray_axis_e9_next: "dr_dt_in (LightRay_Update 1 1000000000 ray_axis) = 299792448"
proof -
  have d: "Vector2Normalize (velocity_cart 1 1000000000 ray_axis) = \<lparr>vx = 1, vy = 0\<rparr>"
    by (simp add: ray_axis_e9 Vector2Normalize_axis)
  have "polar_phi (pos_out 1 1000000000 ray_axis) = 0"
    by (simp add: ray_axis_e9 polar_phi_axis)
  then show ?thesis
    by (simp add: entering_after_live [OF ray_axis_live_e9] d c_light_def)
qed

lemma ray_axis_e9_live2: "live 1000000000 (LightRay_Update 1 1000000000 ray_axis)"
  by (simp add: live_def Update_live [OF ray_axis_live_e9] ray_axis_e9 polar_r_axis VIS_SCALE_def)

section \<open>The Schwarzschild radius\<close>

text \<open>
  C3. A black hole built with mass \<open>m\<close> stores \<open>2 * G * m / c^2\<close>, computed by the
  constructor from the program's constants; no update of the simulation, however many,
  touches the black hole, so the stored radius is never recomputed. The program's constants
  are the single-precision values of its literals, not the values \<open>c = 299792458\<close> and
  \<open>G = 6.6743e-11\<close>: for the reference mass \<open>8.54e36\<close> the stored radius, \<open>1.268388e10\<close>,
  exceeds \<open>2 * G * m / c^2\<close> at those values by between 848 and 850 metres. That is more
  than one part in \<open>2^24\<close> of the value, and the value of \<open>c\<close> alone accounts for more
  than 846 metres of it.
\<close>

theorem schwarzschild_radius_stored:
  "bh_r_s (BlackHole_init p m) = 2 * G_grav * m / c_light\<^sup>2
   \<and> bh_r_s (blackHole (Simulation_steps dts sim)) = bh_r_s (blackHole sim)
   \<and> blackHole (Simulation_init w h) = BlackHole_init \<lparr>vx = 0, vy = 0\<rparr> (854 * 10 ^ 34)
   \<and> 848 < bh_r_s (BlackHole_init p (854 * 10 ^ 34)) - 2 * G_spec * (854 * 10 ^ 34) / c_spec\<^sup>2
   \<and> bh_r_s (BlackHole_init p (854 * 10 ^ 34)) - 2 * G_spec * (854 * 10 ^ 34) / c_spec\<^sup>2 < 850
   \<and> (2 * G_spec * (854 * 10 ^ 34) / c_spec\<^sup>2) / 2 ^ 24
       < bh_r_s (BlackHole_init p (854 * 10 ^ 34)) - 2 * G_spec * (854 * 10 ^ 34) / c_spec\<^sup>2
   \<and> 2 * G_spec * (854 * 10 ^ 34) / c_light\<^sup>2 - 2 * G_spec * (854 * 10 ^ 34) / c_spec\<^sup>2 > 846
   \<and> 1268388 * 10 ^ 4 < bh_r_s (BlackHole_init p (854 * 10 ^ 34))
   \<and> bh_r_s (BlackHole_init p (854 * 10 ^ 34)) < 1268389 * 10 ^ 4"
proof -
  have stored: "bh_r_s (BlackHole_init p m) = 2 * G_grav * m / c_light\<^sup>2"
    by (simp add: BlackHole_init_def power2_eq_square)
  have kept: "bh_r_s (blackHole (Simulation_steps dts sim)) = bh_r_s (blackHole sim)"
    by (simp add: Simulation_steps_blackHole)
  have built: "blackHole (Simulation_init w h)
               = BlackHole_init \<lparr>vx = 0, vy = 0\<rparr> (854 * 10 ^ 34)"
    by (simp add: Simulation_init_def Let_def)
  have above: "848 < bh_r_s (BlackHole_init p (854 * 10 ^ 34))
                     - 2 * G_spec * (854 * 10 ^ 34) / c_spec\<^sup>2"
    by (simp add: BlackHole_init_def G_grav_def c_light_def G_spec_def c_spec_def)
  have below: "bh_r_s (BlackHole_init p (854 * 10 ^ 34))
               - 2 * G_spec * (854 * 10 ^ 34) / c_spec\<^sup>2 < 850"
    by (simp add: BlackHole_init_def G_grav_def c_light_def G_spec_def c_spec_def)
  have ulp: "(2 * G_spec * (854 * 10 ^ 34) / c_spec\<^sup>2) / 2 ^ 24
             < bh_r_s (BlackHole_init p (854 * 10 ^ 34))
               - 2 * G_spec * (854 * 10 ^ 34) / c_spec\<^sup>2"
    by (simp add: BlackHole_init_def G_grav_def c_light_def G_spec_def c_spec_def)
  have from_c: "2 * G_spec * (854 * 10 ^ 34) / c_light\<^sup>2
                - 2 * G_spec * (854 * 10 ^ 34) / c_spec\<^sup>2 > 846"
    by (simp add: c_light_def G_spec_def c_spec_def)
  have lower: "1268388 * 10 ^ 4 < bh_r_s (BlackHole_init p (854 * 10 ^ 34))"
    by (simp add: BlackHole_init_def G_grav_def c_light_def)
  have upper: "bh_r_s (BlackHole_init p (854 * 10 ^ 34)) < 1268389 * 10 ^ 4"
    by (simp add: BlackHole_init_def G_grav_def c_light_def)
  from stored kept built above below ulp from_c lower upper show ?thesis by blast
qed

section \<open>Absorption\<close>

text \<open>
  C2. Once the radius derived from a ray's position is below the Schwarzschild radius, any
  number of further updates against that radius, with any time steps, leaves the position,
  the direction and the whole path (so also its length) as they were; the derived radius
  therefore stays below the Schwarzschild radius and the ray never becomes live again.
\<close>

theorem absorbed_ray_frozen:
  assumes "polar_r (lr_pos lr) < r_s"
  shows "lr_pos (LightRay_steps r_s dts lr) = lr_pos lr
         \<and> lr_dir (LightRay_steps r_s dts lr) = lr_dir lr
         \<and> lr_path (LightRay_steps r_s dts lr) = lr_path lr
         \<and> polar_r (lr_pos (LightRay_steps r_s dts lr)) < r_s
         \<and> \<not> live r_s (LightRay_steps r_s dts lr)"
  using steps_absorbed [OF assms, of dts] assms by (simp add: live_def)

theorem absorbed_ray_frozen_witness:
  "polar_r (lr_pos (LightRay_init \<lparr>vx = 6, vy = 0\<rparr> \<lparr>vx = 1, vy = 0\<rparr>)) < 2 * 10 ^ 9
   \<and> lr_pos (LightRay_steps (2 * 10 ^ 9) [1, - 3, 0]
        (LightRay_init \<lparr>vx = 6, vy = 0\<rparr> \<lparr>vx = 1, vy = 0\<rparr>)) = \<lparr>vx = 6, vy = 0\<rparr>
   \<and> lr_dir (LightRay_steps (2 * 10 ^ 9) [1, - 3, 0]
        (LightRay_init \<lparr>vx = 6, vy = 0\<rparr> \<lparr>vx = 1, vy = 0\<rparr>)) = \<lparr>vx = 1, vy = 0\<rparr>
   \<and> lr_path (LightRay_steps (2 * 10 ^ 9) [1, - 3, 0]
        (LightRay_init \<lparr>vx = 6, vy = 0\<rparr> \<lparr>vx = 1, vy = 0\<rparr>)) = [\<lparr>vx = 6, vy = 0\<rparr>]"
proof -
  have h: "polar_r (lr_pos (LightRay_init \<lparr>vx = 6, vy = 0\<rparr> \<lparr>vx = 1, vy = 0\<rparr>)) < 2 * 10 ^ 9"
    by (simp add: LightRay_init_def polar_r_axis VIS_SCALE_def)
  from absorbed_ray_frozen [OF h, of "[1, - 3, 0]"] h show ?thesis
    by (simp add: LightRay_init_def)
qed

section \<open>The guard at radius zero\<close>

text \<open>
  C5. When a ray's position is the black hole's (the origin, where the simulation puts it),
  or more generally when the derived radius is not positive, an update returns with
  position, direction, the velocity fields \<open>dr\<close> and \<open>dphi\<close>, and the path unchanged.
  The update is a total function: nothing is raised, and the position it leaves is the
  position it found. (The fields \<open>r\<close> and \<open>phi\<close> are re-derived before the guard.)
\<close>

theorem zero_radius_guard:
  assumes "lr_pos lr = bh_pos (blackHole (Simulation_init w h)) \<or> polar_r (lr_pos lr) \<le> 0"
  shows "lr_pos (LightRay_Update dt r_s lr) = lr_pos lr
         \<and> lr_dir (LightRay_Update dt r_s lr) = lr_dir lr
         \<and> lr_dr (LightRay_Update dt r_s lr) = lr_dr lr
         \<and> lr_dphi (LightRay_Update dt r_s lr) = lr_dphi lr
         \<and> lr_path (LightRay_Update dt r_s lr) = lr_path lr"
proof -
  have "polar_r (lr_pos lr) \<le> 0"
    using assms
    by (auto simp add: polar_r_le_zero_iff Simulation_init_def BlackHole_init_def Let_def)
  then have "\<not> live r_s lr" by (simp add: live_def)
  then show ?thesis by (simp add: Update_frozen_fields)
qed

theorem zero_radius_guard_witness:
  "lr_pos (LightRay_init \<lparr>vx = 0, vy = 0\<rparr> \<lparr>vx = 1, vy = 0\<rparr>)
     = bh_pos (blackHole (Simulation_init 1600 900))
   \<and> lr_pos (LightRay_Update 1 (1268 * 10 ^ 7)
        (LightRay_init \<lparr>vx = 0, vy = 0\<rparr> \<lparr>vx = 1, vy = 0\<rparr>)) = \<lparr>vx = 0, vy = 0\<rparr>
   \<and> lr_dir (LightRay_Update 1 (1268 * 10 ^ 7)
        (LightRay_init \<lparr>vx = 0, vy = 0\<rparr> \<lparr>vx = 1, vy = 0\<rparr>)) = \<lparr>vx = 1, vy = 0\<rparr>
   \<and> lr_path (LightRay_Update 1 (1268 * 10 ^ 7)
        (LightRay_init \<lparr>vx = 0, vy = 0\<rparr> \<lparr>vx = 1, vy = 0\<rparr>)) = [\<lparr>vx = 0, vy = 0\<rparr>]"
proof -
  have h: "lr_pos (LightRay_init \<lparr>vx = 0, vy = 0\<rparr> \<lparr>vx = 1, vy = 0\<rparr>)
           = bh_pos (blackHole (Simulation_init 1600 900))"
    by (simp add: LightRay_init_def Simulation_init_def BlackHole_init_def Let_def)
  have fields: "lr_pos (LightRay_init \<lparr>vx = 0, vy = 0\<rparr> \<lparr>vx = 1, vy = 0\<rparr>) = \<lparr>vx = 0, vy = 0\<rparr>"
    "lr_dir (LightRay_init \<lparr>vx = 0, vy = 0\<rparr> \<lparr>vx = 1, vy = 0\<rparr>) = \<lparr>vx = 1, vy = 0\<rparr>"
    "lr_path (LightRay_init \<lparr>vx = 0, vy = 0\<rparr> \<lparr>vx = 1, vy = 0\<rparr>) = [\<lparr>vx = 0, vy = 0\<rparr>]"
    by (simp_all add: LightRay_init_def)
  from zero_radius_guard [OF disjI1 [OF h], of 1 "1268 * 10 ^ 7"] h
  show ?thesis unfolding fields by blast
qed

section \<open>Growth of the path\<close>

text \<open>
  C4. The path of a newly constructed ray is its initial position alone. An update of a
  live ray appends exactly one point, the new position. Whatever the updates, the path
  before them is a prefix of the path after them, so no point is removed or reordered and
  the first point stays the initial position. After \<open>n\<close> updates that each start from a
  live ray, the path of a new ray has \<open>n + 1\<close> points.
\<close>

theorem path_append_only:
  "lr_path (LightRay_init p d) = [p]
   \<and> (live r_s lr \<longrightarrow>
        lr_path (LightRay_Update dt r_s lr) = lr_path lr @ [lr_pos (LightRay_Update dt r_s lr)])
   \<and> prefix (lr_path lr) (lr_path (LightRay_steps r_s dts lr))
   \<and> hd (lr_path (LightRay_steps r_s dts (LightRay_init p d))) = p
   \<and> (all_live r_s dts (LightRay_init p d) \<longrightarrow>
        length (lr_path (LightRay_steps r_s dts (LightRay_init p d))) = length dts + 1)"
proof -
  have first: "lr_path (LightRay_init p d) = [p]"
    by (simp add: LightRay_init_def)
  have "prefix [p] (lr_path (LightRay_steps r_s dts (LightRay_init p d)))"
    using steps_path_prefix [of "LightRay_init p d" r_s dts] by (simp add: first)
  then have hd: "hd (lr_path (LightRay_steps r_s dts (LightRay_init p d))) = p"
    by (auto simp add: prefix_def)
  have len: "length (lr_path (LightRay_steps r_s dts (LightRay_init p d))) = length dts + 1"
    if "all_live r_s dts (LightRay_init p d)"
    using steps_live_length [OF that] by (simp add: first)
  from first hd len show ?thesis
    by (simp add: Update_live_path steps_path_prefix)
qed

theorem path_append_only_witness:
  "live 1 ray_axis \<and> all_live 1 [1, 1] (LightRay_init \<lparr>vx = 6, vy = 0\<rparr> \<lparr>vx = 1, vy = 0\<rparr>)
   \<and> lr_path (LightRay_Update 1 1 ray_axis)
       = lr_path ray_axis @ [lr_pos (LightRay_Update 1 1 ray_axis)]
   \<and> length (lr_path (LightRay_steps 1 [1, 1]
        (LightRay_init \<lparr>vx = 6, vy = 0\<rparr> \<lparr>vx = 1, vy = 0\<rparr>))) = 3"
proof -
  have h: "all_live 1 [1, 1] (LightRay_init \<lparr>vx = 6, vy = 0\<rparr> \<lparr>vx = 1, vy = 0\<rparr>)"
    using ray_axis_live ray_axis_live2 by (simp add: ray_axis_def)
  from path_append_only [of "\<lparr>vx = 6, vy = 0\<rparr>" "\<lparr>vx = 1, vy = 0\<rparr>" 1 ray_axis 1 "[1, 1]"]
    h ray_axis_live
  show ?thesis by simp
qed

section \<open>The time step is not validated\<close>

text \<open>
  C9. For every time step, zero and negative ones included, the update of a live ray runs
  the whole integration: position, direction, \<open>r\<close> and \<open>phi\<close> take the values the
  integration computes for that step and the path grows by exactly the new position. With
  the time step zero the appended point is the position the ray already had. The update
  has no error result and rejects no input.
\<close>

theorem update_accepts_any_dt:
  assumes "live r_s lr"
  shows "lr_path (LightRay_Update dt r_s lr) = lr_path lr @ [pos_out dt r_s lr]
         \<and> length (lr_path (LightRay_Update dt r_s lr)) = length (lr_path lr) + 1
         \<and> lr_pos (LightRay_Update dt r_s lr) = pos_out dt r_s lr
         \<and> lr_dir (LightRay_Update dt r_s lr) = Vector2Normalize (velocity_cart dt r_s lr)
         \<and> lr_r (LightRay_Update dt r_s lr) = r_out dt r_s lr
         \<and> lr_phi (LightRay_Update dt r_s lr) = phi_out dt lr
         \<and> lr_path (LightRay_Update 0 r_s lr) = lr_path lr @ [lr_pos lr]"
proof -
  have "lr_path (LightRay_Update 0 r_s lr) = lr_path lr @ [pos_out 0 r_s lr]"
    by (simp add: Update_live [OF assms])
  then have "lr_path (LightRay_Update 0 r_s lr) = lr_path lr @ [lr_pos lr]"
    by (simp only: pos_out_zero_dt [OF assms])
  then show ?thesis
    by (simp add: Update_live [OF assms])
qed


theorem update_accepts_any_dt_witness:
  "live 1 ray_axis
   \<and> length (lr_path (LightRay_Update (- 1) 1 ray_axis)) = 2
   \<and> length (lr_path (LightRay_Update 0 1 ray_axis)) = 2
   \<and> lr_pos (LightRay_Update 0 1 ray_axis) = \<lparr>vx = 6, vy = 0\<rparr>
   \<and> vx (lr_pos (LightRay_Update (- 1) 1 ray_axis)) < 5"
proof -
  have past: "vx (pos_out (- 1) 1 ray_axis) < 5"
    by (simp add: out_defs Let_def ray_axis_def LightRay_init_def polar_r_axis polar_phi_axis
        VIS_SCALE_def c_light_def)
  have still: "pos_out 0 1 ray_axis = \<lparr>vx = 6, vy = 0\<rparr>"
    by (simp add: out_defs Let_def ray_axis_def LightRay_init_def polar_r_axis polar_phi_axis
        VIS_SCALE_def c_light_def)
  have one: "length (lr_path ray_axis) = 1"
    by (simp add: ray_axis_def LightRay_init_def)
  from update_accepts_any_dt [OF ray_axis_live, of "- 1"]
    update_accepts_any_dt [OF ray_axis_live, of 0] past still one ray_axis_live
  show ?thesis by simp
qed

section \<open>The integration step\<close>

text \<open>
  C1. For a live ray (derived radius positive and not below the Schwarzschild radius) and any
  time step, the update is the specification's integration applied to the derived radius and
  angle and the velocities taken from the direction: \<open>L = r^2 * dphi / c\<close>, the two
  accelerations as the specification writes them, then the velocities, then the positions.
  The fields \<open>r\<close> and \<open>phi\<close>, the position and the direction after the update are built
  from its result, and the new radius and angle are the old ones advanced by the already
  updated velocities.
\<close>

theorem update_follows_integration:
  assumes "live r_s lr"
  shows "case integrate_spec r_s dt
                (polar_r (lr_pos lr), polar_phi (lr_pos lr), dr_dt_in lr, dphi_dt_in lr)
         of (r', phi', dr', dphi') \<Rightarrow>
           lr_r (LightRay_Update dt r_s lr) = r'
           \<and> lr_phi (LightRay_Update dt r_s lr) = phi'
           \<and> lr_pos (LightRay_Update dt r_s lr)
               = \<lparr>vx = r' * cos phi' * VIS_SCALE, vy = r' * sin phi' * VIS_SCALE\<rparr>
           \<and> lr_dir (LightRay_Update dt r_s lr)
               = Vector2Normalize \<lparr>vx = dr' * cos phi' + r' * dphi' * (- sin phi'),
                                    vy = dr' * sin phi' + r' * dphi' * cos phi'\<rparr>
           \<and> r' = polar_r (lr_pos lr) + dr' * dt
           \<and> phi' = polar_phi (lr_pos lr) + dphi' * dt"
proof -
  have spec: "integrate_spec r_s dt
                (polar_r (lr_pos lr), polar_phi (lr_pos lr), dr_dt_in lr, dphi_dt_in lr)
              = (r_out dt r_s lr, phi_out dt lr, dr_dt_out dt r_s lr, dphi_dt_out dt lr)"
    by (simp add: integrate_spec_def Let_def r_out_def phi_out_def dr_dt_out_def
        dphi_dt_out_def d2r_dt2_def d2phi_dt2_def power2_eq_square power3_eq_cube
        power4_eq_xxxx)
  show ?thesis
    unfolding spec
    by (simp add: Update_live [OF assms] pos_out_def velocity_cart_def r_out_def phi_out_def)
qed

theorem update_follows_integration_witness:
  "live 1 ray_axis
   \<and> integrate_spec 1 2 (10 ^ 9, 0, 299792448, 0)
       = (10 ^ 9 + (299792448 - 299792448\<^sup>2 / (2 * 10 ^ 18) * 2) * 2, 0,
          299792448 - 299792448\<^sup>2 / (2 * 10 ^ 18) * 2, 0)
   \<and> lr_r (LightRay_Update 2 1 ray_axis)
       = 10 ^ 9 + (299792448 - 299792448\<^sup>2 / (2 * 10 ^ 18) * 2) * 2
   \<and> lr_phi (LightRay_Update 2 1 ray_axis) = 0"
proof -
  have v: "integrate_spec 1 2 (10 ^ 9, 0, 299792448, 0)
       = (10 ^ 9 + (299792448 - 299792448\<^sup>2 / (2 * 10 ^ 18) * 2) * 2, 0,
          299792448 - 299792448\<^sup>2 / (2 * 10 ^ 18) * 2, 0)"
    by (simp add: integrate_spec_def Let_def c_light_def)
  note t = update_follows_integration [OF ray_axis_live, of 2, unfolded ray_axis_in v prod.case]
  from t ray_axis_live v show ?thesis by blast
qed

section \<open>Stepping the world\<close>

text \<open>
  C7. A step of the simulation applies the ray update, with the black hole's Schwarzschild
  radius, to every ray: the ray at each index afterwards is the update of the ray at that
  index before, a function of that ray, the time step and the radius alone. Hence stepping
  commutes with every permutation of the collection: stepping the permuted collection gives
  the permuted result of stepping the original one.
\<close>

theorem step_order_independent:
  "lightRays (Simulation_Update dt sim)
     = map (LightRay_Update dt (bh_r_s (blackHole sim))) (lightRays sim)
   \<and> (\<forall>i < length (lightRays sim).
         lightRays (Simulation_Update dt sim) ! i
           = LightRay_Update dt (bh_r_s (blackHole sim)) (lightRays sim ! i))
   \<and> (mset idxs = mset [0..<length (lightRays sim)] \<longrightarrow>
         lightRays (Simulation_Update dt (sim\<lparr>lightRays := map ((!) (lightRays sim)) idxs\<rparr>))
           = map ((!) (lightRays (Simulation_Update dt sim))) idxs)"
proof -
  have m: "lightRays (Simulation_Update dt s)
           = map (LightRay_Update dt (bh_r_s (blackHole s))) (lightRays s)" for s
    by (simp add: Simulation_Update_def update_rays_map)
  have p: "lightRays (Simulation_Update dt (sim\<lparr>lightRays := map ((!) (lightRays sim)) idxs\<rparr>))
           = map ((!) (lightRays (Simulation_Update dt sim))) idxs"
    if "mset idxs = mset [0..<length (lightRays sim)]"
  proof -
    from that have "set idxs = set [0..<length (lightRays sim)]" by (rule mset_eq_setD)
    then have "set idxs \<subseteq> {..<length (lightRays sim)}" by auto
    then show ?thesis by (simp add: m nth_map_indices)
  qed
  from m [of sim] p show ?thesis by simp
qed

theorem step_order_independent_witness:
  "mset [1, 0] = mset [0..<length (lightRays sim_two)]
   \<and> 1 < length (lightRays sim_two)
   \<and> lightRays (Simulation_Update 1 sim_two) ! 1
       = LightRay_Update 1 (bh_r_s (blackHole sim_two)) (lightRays sim_two ! 1)
   \<and> lightRays (Simulation_Update 1 (sim_two\<lparr>lightRays := map ((!) (lightRays sim_two)) [1, 0]\<rparr>))
       = map ((!) (lightRays (Simulation_Update 1 sim_two))) [1, 0]"
proof -
  have h: "mset [1, 0] = mset [0..<length (lightRays sim_two)]"
    by (simp add: sim_two_def upt_rec)
  have l: "1 < length (lightRays sim_two)"
    by (simp add: sim_two_def)
  from step_order_independent [of 1 sim_two "[1, 0]"] h l
  show ?thesis by blast
qed

section \<open>The black hole's position\<close>

text \<open>
  C10. Changing the position stored in the black hole changes no ray after any sequence of
  steps: the update receives the Schwarzschild radius only and derives the radius from the
  ray's own coordinates, that is, relative to the origin. This agrees with the
  specification's \<open>|position - blackHolePosition| / VIS_SCALE\<close> for the black hole the
  simulation constructs, which is at the origin; for a black hole at \<open>p\<close> the two radii
  of a ray at \<open>p\<close> agree exactly when \<open>p\<close> is the origin.
\<close>

theorem black_hole_position_unused:
  "lightRays (Simulation_steps dts (sim\<lparr>blackHole := (blackHole sim)\<lparr>bh_pos := p\<rparr>\<rparr>))
     = lightRays (Simulation_steps dts sim)
   \<and> LightRay_Update dt (bh_r_s (blackHole sim)) lr
       = LightRay_Update dt (bh_r_s ((blackHole sim)\<lparr>bh_pos := p\<rparr>)) lr
   \<and> polar_r q = hypot (vx q) (vy q) / VIS_SCALE
   \<and> polar_r q = polar_r_spec (bh_pos (blackHole (Simulation_init w h))) q
   \<and> (polar_r p = polar_r_spec p p) = (vx p = 0 \<and> vy p = 0)"
proof -
  have a: "lightRays (Simulation_steps dts (sim\<lparr>blackHole := (blackHole sim)\<lparr>bh_pos := p\<rparr>\<rparr>))
     = lightRays (Simulation_steps dts sim)"
    by (rule update_steps_rays) simp_all
  have b: "polar_r q = polar_r_spec (bh_pos (blackHole (Simulation_init w h))) q"
    by (simp add: polar_r_def polar_r_spec_def hypot_def Simulation_init_def BlackHole_init_def
        Let_def power2_eq_square)
  have "polar_r_spec p p = 0" by (simp add: polar_r_spec_def)
  then have c: "(polar_r p = polar_r_spec p p) = (vx p = 0 \<and> vy p = 0)"
    using polar_r_le_zero_iff [of p] polar_r_nonneg [of p] by auto
  from a b c show ?thesis by (simp add: polar_r_def)
qed

section \<open>What is carried from one update to the next\<close>

text \<open>
  C6 (as amended). Every update derives radius and angle afresh from the Cartesian position,
  relative to the origin: its result does not depend on the stored fields \<open>r\<close> and
  \<open>phi\<close>, which it overwrites with the derived values (and, when the ray is live, with
  those advanced by the integration). The velocities are not carried as numbers. The
  fields \<open>dr\<close> and \<open>dphi\<close> are neither read nor written. What a live update stores is
  the direction, the normalised Cartesian velocity, and the velocities entering the next
  update are computed from that direction, the angle derived from the new position, and
  \<open>c\<close>.
\<close>

theorem polar_rederived_direction_carried:
  "LightRay_Update dt r_s (lr\<lparr>lr_r := a, lr_phi := b\<rparr>) = LightRay_Update dt r_s lr
   \<and> LightRay_Update dt r_s (lr\<lparr>lr_dr := u, lr_dphi := w\<rparr>)
       = (LightRay_Update dt r_s lr)\<lparr>lr_dr := u, lr_dphi := w\<rparr>
   \<and> lr_dr (LightRay_Update dt r_s lr) = lr_dr lr
   \<and> lr_dphi (LightRay_Update dt r_s lr) = lr_dphi lr
   \<and> (\<not> live r_s lr \<longrightarrow>
        lr_r (LightRay_Update dt r_s lr) = polar_r (lr_pos lr)
        \<and> lr_phi (LightRay_Update dt r_s lr) = polar_phi (lr_pos lr))
   \<and> (live r_s lr \<longrightarrow>
        lr_r (LightRay_Update dt r_s lr) = polar_r (lr_pos lr) + dr_dt_out dt r_s lr * dt
        \<and> lr_phi (LightRay_Update dt r_s lr) = polar_phi (lr_pos lr) + dphi_dt_out dt lr * dt)
   \<and> (live r_s lr \<longrightarrow>
        lr_dir (LightRay_Update dt r_s lr) = Vector2Normalize (velocity_cart dt r_s lr)
        \<and> dr_dt_in (LightRay_Update dt r_s lr)
            = (vx (Vector2Normalize (velocity_cart dt r_s lr))
                 * cos (polar_phi (pos_out dt r_s lr))
               + vy (Vector2Normalize (velocity_cart dt r_s lr))
                 * sin (polar_phi (pos_out dt r_s lr))) * c_light
        \<and> dphi_dt_in (LightRay_Update dt r_s lr)
            = (vx (Vector2Normalize (velocity_cart dt r_s lr))
                 * (- sin (polar_phi (pos_out dt r_s lr)))
               + vy (Vector2Normalize (velocity_cart dt r_s lr))
                 * cos (polar_phi (pos_out dt r_s lr))) * c_light
              / polar_r (pos_out dt r_s lr))"
proof -
  have fields: "lr_dr (LightRay_Update dt r_s lr) = lr_dr lr"
    "lr_dphi (LightRay_Update dt r_s lr) = lr_dphi lr"
    by (cases "live r_s lr"; simp add: Update_live Update_frozen)+
  have frozen: "lr_r (LightRay_Update dt r_s lr) = polar_r (lr_pos lr)
                \<and> lr_phi (LightRay_Update dt r_s lr) = polar_phi (lr_pos lr)"
    if "\<not> live r_s lr"
    by (simp add: Update_frozen [OF that])
  have moved: "lr_r (LightRay_Update dt r_s lr) = polar_r (lr_pos lr) + dr_dt_out dt r_s lr * dt
               \<and> lr_phi (LightRay_Update dt r_s lr)
                  = polar_phi (lr_pos lr) + dphi_dt_out dt lr * dt"
    if "live r_s lr"
    by (simp add: Update_live [OF that] r_out_def phi_out_def)
  from fields frozen moved show ?thesis
    by (simp add: Update_ignores_polar_fields Update_keeps_velocity_fields Update_live_dir
        entering_after_live)
qed

theorem polar_rederived_direction_carried_witness:
  "live 1000000000 ray_axis
   \<and> lr_r (LightRay_Update 1 1000000000 ray_axis)
       = polar_r (lr_pos ray_axis) + dr_dt_out 1 1000000000 ray_axis * 1
   \<and> lr_dir (LightRay_Update 1 1000000000 ray_axis)
       = Vector2Normalize (velocity_cart 1 1000000000 ray_axis)
   \<and> \<not> live (2 * 10 ^ 9) ray_axis
   \<and> lr_r (LightRay_Update 1 (2 * 10 ^ 9) ray_axis) = polar_r (lr_pos ray_axis)
   \<and> lr_dr (LightRay_Update 1 1000000000 ray_axis) = lr_dr ray_axis"
proof -
  have n: "\<not> live (2 * 10 ^ 9) ray_axis"
    by (simp add: live_def ray_axis_def LightRay_init_def polar_r_axis VIS_SCALE_def)
  from polar_rederived_direction_carried [where dt = 1 and r_s = 1000000000 and lr = ray_axis]
    polar_rederived_direction_carried [where dt = 1 and r_s = "2 * 10 ^ 9" and lr = ray_axis]
    ray_axis_live_e9 n
  show ?thesis by blast
qed

text \<open>
  C6 as stated fails: for the ray at \<open>(6, 0)\<close> heading along the axis, with
  Schwarzschild radius \<open>10^9\<close> and time step 1, the integration produces a radial velocity
  between 254854692 and 254854693, but the next update starts from a radial velocity above
  299792400; the field \<open>dr\<close> is still 0.
\<close>

theorem velocities_persist_counterexample:
  "live 1000000000 ray_axis \<and> live 1000000000 (LightRay_Update 1 1000000000 ray_axis)
   \<and> 254854692 < dr_dt_out 1 1000000000 ray_axis
   \<and> dr_dt_out 1 1000000000 ray_axis < 254854693
   \<and> 299792400 < dr_dt_in (LightRay_Update 1 1000000000 ray_axis)
   \<and> dr_dt_in (LightRay_Update 1 1000000000 ray_axis) \<noteq> dr_dt_out 1 1000000000 ray_axis
   \<and> lr_dr (LightRay_Update 1 1000000000 ray_axis) = 0"
proof -
  have lo: "254854692 < dr_dt_out 1 1000000000 ray_axis"
    and hi: "dr_dt_out 1 1000000000 ray_axis < 254854693"
    by (simp_all add: ray_axis_e9)
  have nx: "299792400 < dr_dt_in (LightRay_Update 1 1000000000 ray_axis)"
    by (simp add: ray_axis_e9_next)
  from hi nx have ne: "dr_dt_in (LightRay_Update 1 1000000000 ray_axis)
                       \<noteq> dr_dt_out 1 1000000000 ray_axis"
    by linarith
  have "lr_dr (LightRay_Update 1 1000000000 ray_axis) = lr_dr ray_axis"
    by (simp add: Update_live [OF ray_axis_live_e9])
  then have f: "lr_dr (LightRay_Update 1 1000000000 ray_axis) = 0"
    by (simp add: ray_axis_def LightRay_init_def)
  from ray_axis_live_e9 ray_axis_e9_live2 lo hi nx ne f show ?thesis by blast
qed

section \<open>The speed entering an update\<close>

text \<open>
  C8 (as amended). The velocities a live update hands to the integration are the stored
  direction resolved along the polar basis and multiplied by \<open>c\<close>, the angular one
  divided by the radius. The direction a live update stores is \<open>Vector2Normalize\<close> of the
  Cartesian velocity, and an update reads nothing of the ray but position and direction
  (and the path it appends to): two rays that agree on these are updated alike, whatever
  their history. The speed entering an update is not always \<open>c\<close>: when a live update
  produces the zero velocity, the stored direction is the zero vector and the next update is
  entered with both velocities, and so the speed, equal to 0.
\<close>

theorem speed_entering_update:
  "(live r_s lr \<longrightarrow>
      lr_r (LightRay_Update dt r_s lr)
        = fst (integrate_spec r_s dt
            (polar_r (lr_pos lr), polar_phi (lr_pos lr),
             (vx (lr_dir lr) * cos (polar_phi (lr_pos lr))
              + vy (lr_dir lr) * sin (polar_phi (lr_pos lr))) * c_light,
             (vx (lr_dir lr) * (- sin (polar_phi (lr_pos lr)))
              + vy (lr_dir lr) * cos (polar_phi (lr_pos lr))) * c_light
             / polar_r (lr_pos lr)))
      \<and> lr_phi (LightRay_Update dt r_s lr)
        = fst (snd (integrate_spec r_s dt
            (polar_r (lr_pos lr), polar_phi (lr_pos lr),
             (vx (lr_dir lr) * cos (polar_phi (lr_pos lr))
              + vy (lr_dir lr) * sin (polar_phi (lr_pos lr))) * c_light,
             (vx (lr_dir lr) * (- sin (polar_phi (lr_pos lr)))
              + vy (lr_dir lr) * cos (polar_phi (lr_pos lr))) * c_light
             / polar_r (lr_pos lr))))
      \<and> lr_dir (LightRay_Update dt r_s lr) = Vector2Normalize (velocity_cart dt r_s lr))
   \<and> (lr_pos lr1 = lr_pos lr2 \<and> lr_dir lr1 = lr_dir lr2 \<longrightarrow>
      lr_pos (LightRay_Update dt r_s lr1) = lr_pos (LightRay_Update dt r_s lr2)
      \<and> lr_dir (LightRay_Update dt r_s lr1) = lr_dir (LightRay_Update dt r_s lr2)
      \<and> lr_r (LightRay_Update dt r_s lr1) = lr_r (LightRay_Update dt r_s lr2)
      \<and> lr_phi (LightRay_Update dt r_s lr1) = lr_phi (LightRay_Update dt r_s lr2))
   \<and> (live r_s lr \<and> velocity_cart dt r_s lr = \<lparr>vx = 0, vy = 0\<rparr> \<longrightarrow>
      lr_dir (LightRay_Update dt r_s lr) = \<lparr>vx = 0, vy = 0\<rparr>
      \<and> dr_dt_in (LightRay_Update dt r_s lr) = 0
      \<and> dphi_dt_in (LightRay_Update dt r_s lr) = 0
      \<and> speed_in (LightRay_Update dt r_s lr) = 0)"
proof -
  let ?st = "(polar_r (lr_pos lr), polar_phi (lr_pos lr),
             (vx (lr_dir lr) * cos (polar_phi (lr_pos lr))
              + vy (lr_dir lr) * sin (polar_phi (lr_pos lr))) * c_light,
             (vx (lr_dir lr) * (- sin (polar_phi (lr_pos lr)))
              + vy (lr_dir lr) * cos (polar_phi (lr_pos lr))) * c_light
             / polar_r (lr_pos lr))"
  have spec: "integrate_spec r_s dt ?st
              = (r_out dt r_s lr, phi_out dt lr, dr_dt_out dt r_s lr, dphi_dt_out dt lr)"
    by (simp add: integrate_spec_def Let_def r_out_def phi_out_def dr_dt_out_def
        dphi_dt_out_def d2r_dt2_def d2phi_dt2_def dr_dt_in_def dphi_dt_in_def v_phi_in_def
        power2_eq_square power3_eq_cube power4_eq_xxxx)
  have fed: "lr_r (LightRay_Update dt r_s lr) = fst (integrate_spec r_s dt ?st)
             \<and> lr_phi (LightRay_Update dt r_s lr) = fst (snd (integrate_spec r_s dt ?st))
             \<and> lr_dir (LightRay_Update dt r_s lr) = Vector2Normalize (velocity_cart dt r_s lr)"
    if l: "live r_s lr"
    unfolding spec by (simp add: Update_live [OF l])
  have same: "lr_pos (LightRay_Update dt r_s lr1) = lr_pos (LightRay_Update dt r_s lr2)
              \<and> lr_dir (LightRay_Update dt r_s lr1) = lr_dir (LightRay_Update dt r_s lr2)
              \<and> lr_r (LightRay_Update dt r_s lr1) = lr_r (LightRay_Update dt r_s lr2)
              \<and> lr_phi (LightRay_Update dt r_s lr1) = lr_phi (LightRay_Update dt r_s lr2)"
    if "lr_pos lr1 = lr_pos lr2" "lr_dir lr1 = lr_dir lr2"
    using Update_reads_pos_dir [OF that] by blast
  have stalled: "lr_dir (LightRay_Update dt r_s lr) = \<lparr>vx = 0, vy = 0\<rparr>
                 \<and> dr_dt_in (LightRay_Update dt r_s lr) = 0
                 \<and> dphi_dt_in (LightRay_Update dt r_s lr) = 0
                 \<and> speed_in (LightRay_Update dt r_s lr) = 0"
    if l: "live r_s lr" and v: "velocity_cart dt r_s lr = \<lparr>vx = 0, vy = 0\<rparr>"
  proof -
    have "lr_dir (LightRay_Update dt r_s lr) = \<lparr>vx = 0, vy = 0\<rparr>"
      by (simp add: Update_live_dir [OF l] v Vector2Normalize_zero)
    then show ?thesis by (simp add: entering_zero_dir)
  qed
  from fed same stalled show ?thesis by blast
qed

theorem speed_entering_update_witness:
  "live r_s_stall ray_stall
   \<and> velocity_cart dt_stall r_s_stall ray_stall = \<lparr>vx = 0, vy = 0\<rparr>
   \<and> lr_dir (LightRay_Update dt_stall r_s_stall ray_stall) = \<lparr>vx = 0, vy = 0\<rparr>
   \<and> speed_in (LightRay_Update dt_stall r_s_stall ray_stall) = 0
   \<and> lr_pos (ray_stall\<lparr>lr_r := 5, lr_path := []\<rparr>) = lr_pos ray_stall
   \<and> lr_dir (ray_stall\<lparr>lr_r := 5, lr_path := []\<rparr>) = lr_dir ray_stall
   \<and> lr_pos (LightRay_Update dt_stall r_s_stall (ray_stall\<lparr>lr_r := 5, lr_path := []\<rparr>))
       = lr_pos (LightRay_Update dt_stall r_s_stall ray_stall)
   \<and> lr_dir (LightRay_Update dt_stall r_s_stall ray_stall)
       = Vector2Normalize (velocity_cart dt_stall r_s_stall ray_stall)"
proof -
  have p: "lr_pos (ray_stall\<lparr>lr_r := 5, lr_path := []\<rparr>) = lr_pos ray_stall"
    and d: "lr_dir (ray_stall\<lparr>lr_r := 5, lr_path := []\<rparr>) = lr_dir ray_stall"
    by simp_all
  from speed_entering_update [where dt = dt_stall and r_s = r_s_stall and lr = ray_stall
      and ?lr1.0 = "ray_stall\<lparr>lr_r := 5, lr_path := []\<rparr>" and ?lr2.0 = ray_stall]
    ray_stall_live ray_stall_velocity p d
  show ?thesis by blast
qed

text \<open>
  C8 as stated fails: the ray at \<open>(571.8087158203125, 0)\<close> with the unit direction
  \<open>(1, 0)\<close> enters its update at speed \<open>c\<close>; updated against the Schwarzschild radius
  \<open>59604644775.390625\<close> with the time step \<open>1016.548828125\<close> it stays where it is, still
  live, with direction \<open>(0, 0)\<close>, and enters its next update at speed 0.
\<close>

theorem speed_entering_update_counterexample:
  "live r_s_stall ray_stall
   \<and> lr_dir ray_stall = \<lparr>vx = 1, vy = 0\<rparr>
   \<and> speed_in ray_stall = c_light
   \<and> live r_s_stall (LightRay_Update dt_stall r_s_stall ray_stall)
   \<and> lr_pos (LightRay_Update dt_stall r_s_stall ray_stall) = \<lparr>vx = 4684257 / 8192, vy = 0\<rparr>
   \<and> lr_dir (LightRay_Update dt_stall r_s_stall ray_stall) = \<lparr>vx = 0, vy = 0\<rparr>
   \<and> dr_dt_in (LightRay_Update dt_stall r_s_stall ray_stall) = 0
   \<and> dphi_dt_in (LightRay_Update dt_stall r_s_stall ray_stall) = 0
   \<and> speed_in (LightRay_Update dt_stall r_s_stall ray_stall) = 0
   \<and> speed_in (LightRay_Update dt_stall r_s_stall ray_stall) \<noteq> c_light"
proof -
  have u: "lr_dir ray_stall = \<lparr>vx = 1, vy = 0\<rparr>"
    by (simp add: ray_stall_def LightRay_init_def)
  have s0: "speed_in ray_stall = c_light"
    by (simp add: speed_in_def dr_dt_in_def dphi_dt_in_def v_phi_in_def ray_stall_def
        LightRay_init_def polar_phi_axis c_light_def)
  have p: "lr_pos (LightRay_Update dt_stall r_s_stall ray_stall) = \<lparr>vx = 4684257 / 8192, vy = 0\<rparr>"
    by (simp add: Update_live [OF ray_stall_live] ray_stall_pos_out)
  have d: "lr_dir (LightRay_Update dt_stall r_s_stall ray_stall) = \<lparr>vx = 0, vy = 0\<rparr>"
    by (simp add: Update_live_dir [OF ray_stall_live] ray_stall_velocity Vector2Normalize_zero)
  have l: "live r_s_stall (LightRay_Update dt_stall r_s_stall ray_stall)"
    unfolding live_def p by (simp add: polar_r_axis VIS_SCALE_def r_s_stall_def)
  have ne: "speed_in (LightRay_Update dt_stall r_s_stall ray_stall) \<noteq> c_light"
    by (simp add: entering_zero_dir [OF d] c_light_def)
  from ray_stall_live u s0 l p d entering_zero_dir [OF d] ne show ?thesis by blast
qed

end
